theory Spec2Isabelle
  imports Main
begin

section \<open>Strings, bytes and the library functions the token codec calls\<close>

text \<open>
  A Python \<open>str\<close> is a sequence of code points, a \<open>bytes\<close> object a sequence of
  numbers below 256. Literals of the source are ASCII; \<open>str_of\<close> turns one into the
  code points it denotes.
\<close>

type_synonym codepoint = nat
type_synonym str = "codepoint list"
type_synonym bytes = "nat list"

definition str_of :: "string \<Rightarrow> str" where
  "str_of s = map of_char s"

text \<open>
  The failures of the source. \<open>HTTPException\<close> carries \<open>status_code\<close> and \<open>detail\<close>;
  the others are the exceptions that no handler of the source catches.
\<close>

datatype error =
    HTTPException nat string
  | RequestValidationError
  | ValidationError
  | UnicodeEncodeError
  | IndexError
  | TypeError

subsection \<open>\<open>str.encode()\<close> and \<open>bytes.decode()\<close>: strict UTF-8\<close>

fun encode_cp :: "codepoint \<Rightarrow> bytes option" where
  "encode_cp c =
     (if c < 0x80 then Some [c]
      else if c < 0x800 then Some [0xC0 + c div 0x40, 0x80 + c mod 0x40]
      else if c < 0x10000 then
        (if 0xD800 \<le> c \<and> c \<le> 0xDFFF then None
         else Some [0xE0 + c div 0x1000, 0x80 + c div 0x40 mod 0x40, 0x80 + c mod 0x40])
      else if c < 0x110000 then
        Some [0xF0 + c div 0x40000, 0x80 + c div 0x1000 mod 0x40,
              0x80 + c div 0x40 mod 0x40, 0x80 + c mod 0x40]
      else None)"

text \<open>\<open>None\<close> is \<open>UnicodeEncodeError\<close> (a lone surrogate).\<close>

fun str_encode :: "str \<Rightarrow> bytes option" where
  "str_encode [] = Some []"
| "str_encode (c # cs) =
     (case encode_cp c of
        None \<Rightarrow> None
      | Some bs \<Rightarrow> (case str_encode cs of None \<Rightarrow> None | Some r \<Rightarrow> Some (bs @ r)))"

definition is_cont :: "nat \<Rightarrow> bool" where
  "is_cont b = (0x80 \<le> b \<and> b < 0xC0)"

text \<open>
  \<open>None\<close> is \<open>UnicodeDecodeError\<close>: a stray or missing continuation byte, an overlong
  form, a surrogate, a value above \<open>0x10FFFF\<close>, a byte that starts no sequence.
\<close>

fun bytes_decode :: "bytes \<Rightarrow> str option" where
  "bytes_decode [] = Some []"
| "bytes_decode (b # bs) =
     (if b < 0x80 then map_option ((#) b) (bytes_decode bs)
      else if 0xC0 \<le> b \<and> b < 0xE0 then
        (case bs of
           b1 # r \<Rightarrow>
             (let c = (b - 0xC0) * 0x40 + (b1 - 0x80)
              in if is_cont b1 \<and> 0x80 \<le> c then map_option ((#) c) (bytes_decode r)
                 else None)
         | _ \<Rightarrow> None)
      else if 0xE0 \<le> b \<and> b < 0xF0 then
        (case bs of
           b1 # b2 # r \<Rightarrow>
             (let c = (b - 0xE0) * 0x1000 + (b1 - 0x80) * 0x40 + (b2 - 0x80)
              in if is_cont b1 \<and> is_cont b2 \<and> 0x800 \<le> c \<and> \<not> (0xD800 \<le> c \<and> c \<le> 0xDFFF)
                 then map_option ((#) c) (bytes_decode r)
                 else None)
         | _ \<Rightarrow> None)
      else if 0xF0 \<le> b \<and> b < 0xF8 then
        (case bs of
           b1 # b2 # b3 # r \<Rightarrow>
             (let c = (b - 0xF0) * 0x40000 + (b1 - 0x80) * 0x1000 + (b2 - 0x80) * 0x40
                      + (b3 - 0x80)
              in if is_cont b1 \<and> is_cont b2 \<and> is_cont b3 \<and> 0x10000 \<le> c \<and> c < 0x110000
                 then map_option ((#) c) (bytes_decode r)
                 else None)
         | _ \<Rightarrow> None)
      else None)"

subsection \<open>\<open>bytes.hex()\<close> and \<open>bytes.fromhex()\<close>\<close>

definition hexdigit :: "nat \<Rightarrow> codepoint" where
  "hexdigit d = (if d < 10 then 48 + d else 87 + d)"

fun bytes_hex :: "bytes \<Rightarrow> str" where
  "bytes_hex [] = []"
| "bytes_hex (b # bs) = hexdigit (b div 16) # hexdigit (b mod 16) # bytes_hex bs"

definition digitvalue :: "codepoint \<Rightarrow> nat option" where
  "digitvalue c =
     (if 48 \<le> c \<and> c \<le> 57 then Some (c - 48)
      else if 97 \<le> c \<and> c \<le> 102 then Some (c - 87)
      else if 65 \<le> c \<and> c \<le> 70 then Some (c - 55)
      else None)"

definition ascii_space :: "codepoint \<Rightarrow> bool" where
  "ascii_space c = (c = 32 \<or> (9 \<le> c \<and> c \<le> 13))"

text \<open>
  \<open>bytes.fromhex\<close> skips ASCII whitespace before a pair of digits, takes upper- and
  lower-case digits, and raises \<open>ValueError\<close> (here \<open>None\<close>) at any other character and
  at a digit with no partner.
\<close>

fun bytes_fromhex :: "str \<Rightarrow> bytes option" where
  "bytes_fromhex [] = Some []"
| "bytes_fromhex (c # cs) =
     (if ascii_space c then bytes_fromhex cs
      else (case digitvalue c of
              None \<Rightarrow> None
            | Some hi \<Rightarrow>
                (case cs of
                   [] \<Rightarrow> None
                 | d # r \<Rightarrow>
                     (case digitvalue d of
                        None \<Rightarrow> None
                      | Some lo \<Rightarrow> map_option ((#) (hi * 16 + lo)) (bytes_fromhex r)))))"

subsection \<open>\<open>str.split\<close>\<close>

text \<open>\<open>s.split(sep, 1)\<close> for a separator of one character: one or two pieces.\<close>

fun split_once :: "codepoint \<Rightarrow> str \<Rightarrow> str list" where
  "split_once sep [] = [[]]"
| "split_once sep (c # cs) =
     (if c = sep then [[], cs]
      else (case split_once sep cs of [] \<Rightarrow> [] | a # r \<Rightarrow> (c # a) # r))"

text \<open>The characters \<open>str.split()\<close> and \<open>str.isspace()\<close> take for whitespace.\<close>

definition isspace :: "codepoint \<Rightarrow> bool" where
  "isspace c =
     ((0x09 \<le> c \<and> c \<le> 0x0D) \<or> (0x1C \<le> c \<and> c \<le> 0x20) \<or> c = 0x85 \<or> c = 0xA0
      \<or> c = 0x1680 \<or> (0x2000 \<le> c \<and> c \<le> 0x200A) \<or> c = 0x2028 \<or> c = 0x2029
      \<or> c = 0x202F \<or> c = 0x205F \<or> c = 0x3000)"

text \<open>
  \<open>s.split()\<close>: the maximal runs of characters that are not whitespace, in order;
  \<open>w\<close> is the run being read.
\<close>

fun split_run :: "str \<Rightarrow> str \<Rightarrow> str list" where
  "split_run w [] = (if w = [] then [] else [w])"
| "split_run w (c # cs) =
     (if isspace c then (if w = [] then split_run [] cs else w # split_run [] cs)
      else split_run (w @ [c]) cs)"

definition str_split :: "str \<Rightarrow> str list" where
  "str_split s = split_run [] s"

section \<open>The token codec\<close>

record token_payload =
  tok_role :: str
  tok_email :: str

text \<open>\<open>issue_token\<close>: the hexadecimal digits of the UTF-8 bytes of \<open>role:email\<close>.\<close>

definition issue_token :: "str \<Rightarrow> str \<Rightarrow> error + str" where
  "issue_token email role =
     (let raw = role @ str_of '':'' @ email
      in case str_encode raw of
           None \<Rightarrow> Inl UnicodeEncodeError
         | Some bs \<Rightarrow> Inr (bytes_hex bs))"

abbreviation InvalidToken :: error where
  "InvalidToken \<equiv> HTTPException 401 ''Invalid token''"

text \<open>
  \<open>parse_token\<close>: every exception of the body (\<open>fromhex\<close>, \<open>decode\<close>, the unpacking of
  a list of one piece) is caught and replaced by the 401.
\<close>

definition parse_token :: "str \<Rightarrow> error + token_payload" where
  "parse_token token =
     (case bytes_fromhex token of
        None \<Rightarrow> Inl InvalidToken
      | Some bs \<Rightarrow>
          (case bytes_decode bs of
             None \<Rightarrow> Inl InvalidToken
           | Some decoded \<Rightarrow>
               (case split_once 58 decoded of
                  [role, email] \<Rightarrow> Inr \<lparr>tok_role = role, tok_email = email\<rparr>
                | _ \<Rightarrow> Inl InvalidToken)))"

section \<open>The credential store\<close>

text \<open>
  A record of the collection \<open>user\<close> has the fields of the class \<open>User\<close>. The source
  reads every field but the key with \<open>dict.get\<close>, so each of them may be absent.
\<close>

record user =
  email :: str
  password :: "str option"
  name :: "str option"
  role :: "str option"
  is_active :: "bool option"

text \<open>\<open>d.get(key, default)\<close>, on the field already looked up.\<close>

definition dict_get :: "'a option \<Rightarrow> 'a \<Rightarrow> 'a" where
  "dict_get field dflt = (case field of None \<Rightarrow> dflt | Some v \<Rightarrow> v)"

text \<open>\<open>db["user"].find_one({"email": e})\<close>: the first record with that key, if any.\<close>

definition find_one :: "user list \<Rightarrow> str \<Rightarrow> user option" where
  "find_one users e = List.find (\<lambda>u. email u = e) users"

definition count_documents :: "user list \<Rightarrow> str \<Rightarrow> nat" where
  "count_documents users e = length (filter (\<lambda>u. email u = e) users)"

text \<open>
  Modelled from the spec: \<open>create_document\<close> of the module \<open>database\<close> is not among the
  sources; the spec gives the store an \<open>insert(collection, document)\<close>, which adds the
  document to the collection.
\<close>

definition create_document :: "user list \<Rightarrow> user \<Rightarrow> user list" where
  "create_document users u = users @ [u]"

text \<open>
  \<open>seed_users\<close>. The global \<open>db\<close> is \<open>None\<close> when no database is configured, and the
  collection \<open>user\<close> otherwise.
\<close>

definition seed_users :: "user list option \<Rightarrow> user list option" where
  "seed_users db =
     (case db of
        None \<Rightarrow> None
      | Some users \<Rightarrow>
          (let users1 =
                 (if count_documents users (str_of ''admin'') = 0
                  then create_document users
                         \<lparr>email = str_of ''admin'', password = Some (str_of ''admin''),
                          name = Some (str_of ''Administrator''), role = Some (str_of ''admin''),
                          is_active = Some True\<rparr>
                  else users);
               users2 =
                 (if count_documents users1 (str_of ''karyawan'') = 0
                  then create_document users1
                         \<lparr>email = str_of ''karyawan'', password = Some (str_of ''karyawan''),
                          name = Some (str_of ''Karyawan''), role = Some (str_of ''employee''),
                          is_active = Some True\<rparr>
                  else users1)
           in Some users2))"

section \<open>Login\<close>

text \<open>
  A field of type \<open>EmailStr\<close> hands its value to the package \<open>email-validator\<close>, which
  is no part of the repository: \<open>validate_email\<close> stands for it, \<open>None\<close> when it rejects
  the value and the normalised address otherwise. What is fixed here is the one rule
  the claims need: a value with no \<open>@\<close> is not an address.
\<close>

definition EmailStr :: "(str \<Rightarrow> str option) \<Rightarrow> str \<Rightarrow> str option" where
  "EmailStr validate_email v = (if 64 \<notin> set v then None else validate_email v)"

record LoginRequest =
  req_email :: str
  req_password :: str

record LoginResponse =
  resp_email :: str
  resp_name :: str
  resp_role :: str
  resp_token :: str

abbreviation InvalidCredentials :: error where
  "InvalidCredentials \<equiv> HTTPException 401 ''Invalid credentials''"

abbreviation AccountInactive :: error where
  "AccountInactive \<equiv> HTTPException 403 ''User is inactive''"

text \<open>The status of the response that the framework sends for a failure.\<close>

fun status_code :: "error \<Rightarrow> nat" where
  "status_code (HTTPException s d) = s"
| "status_code RequestValidationError = 422"
| "status_code e = 500"

text \<open>
  \<open>login\<close>, called with a request that has passed validation. Building the
  \<open>LoginResponse\<close> validates its \<open>email\<close> field again.
\<close>

definition login ::
  "(str \<Rightarrow> str option) \<Rightarrow> user list option \<Rightarrow> LoginRequest \<Rightarrow> error + LoginResponse" where
  "login validate_email db payload =
     (case db of
        None \<Rightarrow> Inl (HTTPException 500 ''Database not configured'')
      | Some users \<Rightarrow>
          (case find_one users (req_email payload) of
             None \<Rightarrow> Inl InvalidCredentials
           | Some u \<Rightarrow>
               if password u \<noteq> Some (req_password payload) then Inl InvalidCredentials
               else if \<not> dict_get (is_active u) True then Inl AccountInactive
               else
                 (case issue_token (req_email payload) (dict_get (role u) (str_of ''employee'')) of
                    Inl e \<Rightarrow> Inl e
                  | Inr token \<Rightarrow>
                      (case EmailStr validate_email (req_email payload) of
                         None \<Rightarrow> Inl ValidationError
                       | Some e \<Rightarrow>
                           Inr \<lparr>resp_email = e,
                                resp_name = dict_get (name u) (req_email payload),
                                resp_role = dict_get (role u) (str_of ''employee''),
                                resp_token = token\<rparr>))))"

text \<open>
  \<open>POST /auth/login\<close>: the body is validated against \<open>LoginRequest\<close> before \<open>login\<close>
  runs, and \<open>login\<close> receives the validated address.
\<close>

definition post_auth_login ::
  "(str \<Rightarrow> str option) \<Rightarrow> user list option \<Rightarrow> str \<Rightarrow> str \<Rightarrow> error + LoginResponse" where
  "post_auth_login validate_email db e pw =
     (case EmailStr validate_email e of
        None \<Rightarrow> Inl RequestValidationError
      | Some e' \<Rightarrow> login validate_email db \<lparr>req_email = e', req_password = pw\<rparr>)"

section \<open>The access guard\<close>

record current_user =
  cur_email :: str
  cur_role :: str
  cur_name :: str

abbreviation MissingCredentials :: error where
  "MissingCredentials \<equiv> HTTPException 401 ''Missing Authorization header''"

abbreviation Unauthorized :: error where
  "Unauthorized \<equiv> HTTPException 401 ''User not active or not found''"

abbreviation Forbidden :: error where
  "Forbidden \<equiv> HTTPException 403 ''Admin only''"

text \<open>
  \<open>get_current_user\<close>. \<open>parts[-1]\<close> raises \<open>IndexError\<close> on the empty list, and
  \<open>db["user"]\<close> raises \<open>TypeError\<close> when \<open>db\<close> is \<open>None\<close>.
\<close>

definition get_current_user :: "user list option \<Rightarrow> str option \<Rightarrow> error + current_user" where
  "get_current_user db authorization =
     (case authorization of
        None \<Rightarrow> Inl MissingCredentials
      | Some a \<Rightarrow>
          if a = [] then Inl MissingCredentials
          else
            (let parts = str_split a
             in if parts = [] then Inl IndexError
                else
                  (case parse_token (last parts) of
                     Inl e \<Rightarrow> Inl e
                   | Inr payload \<Rightarrow>
                       (case db of
                          None \<Rightarrow> Inl TypeError
                        | Some users \<Rightarrow>
                            (case find_one users (tok_email payload) of
                               None \<Rightarrow> Inl Unauthorized
                             | Some u \<Rightarrow>
                                 if is_active u \<noteq> Some True then Inl Unauthorized
                                 else
                                   Inr \<lparr>cur_email = tok_email payload,
                                        cur_role = tok_role payload,
                                        cur_name = dict_get (name u) (tok_email payload)\<rparr>)))))"

text \<open>The role check at the head of \<open>list_users\<close>.\<close>

definition admin_only :: "current_user \<Rightarrow> error + unit" where
  "admin_only current =
     (if cur_role current \<noteq> str_of ''admin'' then Inl Forbidden else Inr ())"

text \<open>
  Text that \<open>str.encode()\<close> accepts: every code point is a Unicode scalar value (in
  range, no surrogate).
\<close>

definition scalar_value :: "codepoint \<Rightarrow> bool" where
  "scalar_value c = (c < 0x110000 \<and> \<not> (0xD800 \<le> c \<and> c \<le> 0xDFFF))"

definition unicode_text :: "str \<Rightarrow> bool" where
  "unicode_text s = list_all scalar_value s"

section \<open>Properties of the library functions\<close>

subsection \<open>UTF-8: decoding inverts encoding\<close>

lemma decode_two_bytes:
  "2 \<le> hi \<Longrightarrow> hi < 0x20 \<Longrightarrow> lo < 0x40 \<Longrightarrow>
   bytes_decode ([0xC0 + hi, 0x80 + lo] @ r) = map_option ((#) (hi * 0x40 + lo)) (bytes_decode r)"
  by (simp add: is_cont_def Let_def)

lemma decode_three_bytes:
  "hi < 0x10 \<Longrightarrow> mi < 0x40 \<Longrightarrow> lo < 0x40 \<Longrightarrow> 0x800 \<le> hi * 0x1000 + mi * 0x40 + lo \<Longrightarrow>
   \<not> (0xD800 \<le> hi * 0x1000 + mi * 0x40 + lo \<and> hi * 0x1000 + mi * 0x40 + lo \<le> 0xDFFF) \<Longrightarrow>
   bytes_decode ([0xE0 + hi, 0x80 + mi, 0x80 + lo] @ r)
     = map_option ((#) (hi * 0x1000 + mi * 0x40 + lo)) (bytes_decode r)"
  by (simp add: is_cont_def Let_def)

lemma decode_four_bytes:
  "hi < 0x8 \<Longrightarrow> m1 < 0x40 \<Longrightarrow> m2 < 0x40 \<Longrightarrow> lo < 0x40 \<Longrightarrow>
   0x10000 \<le> hi * 0x40000 + m1 * 0x1000 + m2 * 0x40 + lo \<Longrightarrow>
   hi * 0x40000 + m1 * 0x1000 + m2 * 0x40 + lo < 0x110000 \<Longrightarrow>
   bytes_decode ([0xF0 + hi, 0x80 + m1, 0x80 + m2, 0x80 + lo] @ r)
     = map_option ((#) (hi * 0x40000 + m1 * 0x1000 + m2 * 0x40 + lo)) (bytes_decode r)"
  by (simp add: is_cont_def Let_def)

lemma digits_two: "(c::nat) div 0x40 * 0x40 + c mod 0x40 = c"
  by simp

lemma digits_three: "(c::nat) div 0x1000 * 0x1000 + c div 0x40 mod 0x40 * 0x40 + c mod 0x40 = c"
proof -
  define q where "q = c div 0x40"
  define a where "a = q div 0x40"
  define b where "b = q mod 0x40"
  define l where "l = c mod 0x40"
  have e1: "c div 0x1000 = a" by (simp add: a_def q_def div_mult2_eq)
  have e2: "a * 0x40 + b = q" by (simp add: a_def b_def)
  have e3: "q * 0x40 + l = c" by (simp add: q_def l_def)
  have "a * 0x1000 + b * 0x40 + l = c" using e2 e3 by linarith
  then show ?thesis by (simp add: e1 b_def [symmetric] q_def [symmetric] l_def [symmetric])
qed

lemma digits_four:
  "(c::nat) div 0x40000 * 0x40000 + c div 0x1000 mod 0x40 * 0x1000 + c div 0x40 mod 0x40 * 0x40
     + c mod 0x40 = c"
proof -
  define q where "q = c div 0x40"
  define p where "p = q div 0x40"
  define a where "a = p div 0x40"
  define b where "b = p mod 0x40"
  define m where "m = q mod 0x40"
  define l where "l = c mod 0x40"
  have e0: "c div 0x1000 = p" by (simp add: p_def q_def div_mult2_eq)
  have e1: "c div 0x40000 = a" by (simp add: a_def p_def q_def div_mult2_eq)
  have e2: "a * 0x40 + b = p" by (simp add: a_def b_def)
  have e3: "p * 0x40 + m = q" by (simp add: p_def m_def)
  have e4: "q * 0x40 + l = c" by (simp add: q_def l_def)
  have "a * 0x40000 + b * 0x1000 + m * 0x40 + l = c" using e2 e3 e4 by linarith
  then show ?thesis
    by (simp add: e0 e1 b_def [symmetric] m_def [symmetric] q_def [symmetric] l_def [symmetric])
qed

lemma decode_encode_cp:
  assumes "encode_cp c = Some bs"
  shows "bytes_decode (bs @ r) = map_option ((#) c) (bytes_decode r)"
proof -
  consider (one) "c < 0x80" | (two) "0x80 \<le> c" "c < 0x800"
    | (three) "0x800 \<le> c" "c < 0x10000" | (four) "0x10000 \<le> c" "c < 0x110000"
    | (big) "0x110000 \<le> c"
    by linarith
  then show ?thesis
  proof cases
    case one
    then show ?thesis using assms by auto
  next
    case two
    then have bs: "bs = [0xC0 + c div 0x40, 0x80 + c mod 0x40]" using assms by auto
    have hi: "2 \<le> c div 0x40" "c div 0x40 < 0x20" using two by linarith+
    have "bytes_decode ([0xC0 + c div 0x40, 0x80 + c mod 0x40] @ r)
            = map_option ((#) (c div 0x40 * 0x40 + c mod 0x40)) (bytes_decode r)"
      using hi by (intro decode_two_bytes) simp_all
    then show ?thesis unfolding bs by (simp only: digits_two)
  next
    case three
    then have ns: "\<not> (0xD800 \<le> c \<and> c \<le> 0xDFFF)"
      and bs: "bs = [0xE0 + c div 0x1000, 0x80 + c div 0x40 mod 0x40, 0x80 + c mod 0x40]"
      using assms by (auto split: if_splits)
    have hi: "c div 0x1000 < 0x10" using three by linarith
    have "bytes_decode ([0xE0 + c div 0x1000, 0x80 + c div 0x40 mod 0x40, 0x80 + c mod 0x40] @ r)
            = map_option ((#) (c div 0x1000 * 0x1000 + c div 0x40 mod 0x40 * 0x40 + c mod 0x40))
                (bytes_decode r)"
    proof (intro decode_three_bytes)
      show "c div 0x1000 < 0x10" by (rule hi)
      show "0x800 \<le> c div 0x1000 * 0x1000 + c div 0x40 mod 0x40 * 0x40 + c mod 0x40"
        unfolding digits_three by (rule three)
      show "\<not> (0xD800 \<le> c div 0x1000 * 0x1000 + c div 0x40 mod 0x40 * 0x40 + c mod 0x40
               \<and> c div 0x1000 * 0x1000 + c div 0x40 mod 0x40 * 0x40 + c mod 0x40 \<le> 0xDFFF)"
        unfolding digits_three by (rule ns)
    qed simp_all
    then show ?thesis unfolding bs by (simp only: digits_three)
  next
    case four
    then have bs: "bs = [0xF0 + c div 0x40000, 0x80 + c div 0x1000 mod 0x40,
              0x80 + c div 0x40 mod 0x40, 0x80 + c mod 0x40]"
      using assms by (auto split: if_splits)
    have hi: "c div 0x40000 < 0x8" using four by linarith
    have "bytes_decode ([0xF0 + c div 0x40000, 0x80 + c div 0x1000 mod 0x40,
              0x80 + c div 0x40 mod 0x40, 0x80 + c mod 0x40] @ r)
            = map_option ((#) (c div 0x40000 * 0x40000 + c div 0x1000 mod 0x40 * 0x1000
                  + c div 0x40 mod 0x40 * 0x40 + c mod 0x40)) (bytes_decode r)"
    proof (intro decode_four_bytes)
      show "c div 0x40000 < 0x8" by (rule hi)
      show "0x10000 \<le> c div 0x40000 * 0x40000 + c div 0x1000 mod 0x40 * 0x1000
                  + c div 0x40 mod 0x40 * 0x40 + c mod 0x40"
        unfolding digits_four by (rule four)
      show "c div 0x40000 * 0x40000 + c div 0x1000 mod 0x40 * 0x1000
                  + c div 0x40 mod 0x40 * 0x40 + c mod 0x40 < 0x110000"
        unfolding digits_four by (rule four)
    qed simp_all
    then show ?thesis unfolding bs by (simp only: digits_four)
  next
    case big
    then show ?thesis using assms by auto
  qed
qed


lemma decode_encode: "str_encode s = Some bs \<Longrightarrow> bytes_decode bs = Some s"
proof (induction s arbitrary: bs)
  case Nil
  then show ?case by simp
next
  case (Cons c cs)
  then show ?case
    by (auto split: option.splits simp: decode_encode_cp simp del: encode_cp.simps bytes_decode.simps)
qed

subsection \<open>Hexadecimal digits: \<open>fromhex\<close> inverts \<open>hex\<close>\<close>

lemma encode_cp_lt256: "encode_cp c = Some bs \<Longrightarrow> b \<in> set bs \<Longrightarrow> b < 256"
  by (auto split: if_splits)

lemma str_encode_lt256: "str_encode s = Some bs \<Longrightarrow> b \<in> set bs \<Longrightarrow> b < 256"
proof (induction s arbitrary: bs)
  case Nil
  then show ?case by simp
next
  case (Cons c cs)
  then show ?case
    using encode_cp_lt256 by (fastforce split: option.splits simp del: encode_cp.simps)
qed

lemma digitvalue_hexdigit: "d < 16 \<Longrightarrow> digitvalue (hexdigit d) = Some d"
  by (auto simp: digitvalue_def hexdigit_def)

lemma hexdigit_not_space: "d < 16 \<Longrightarrow> \<not> ascii_space (hexdigit d)"
  by (auto simp: ascii_space_def hexdigit_def)

lemma fromhex_hex: "\<forall>b\<in>set bs. b < 256 \<Longrightarrow> bytes_fromhex (bytes_hex bs) = Some bs"
proof (induction bs)
  case Nil
  then show ?case by simp
next
  case (Cons b bs)
  have "b < 256" using Cons.prems by simp
  then have hi: "b div 16 < 16" by linarith
  have lo: "b mod 16 < 16" by simp
  have b: "b div 16 * 16 + b mod 16 = b" by simp
  show ?case
    using Cons hi lo b
    by (simp add: digitvalue_hexdigit hexdigit_not_space)
qed

subsection \<open>Splitting at the first separator\<close>

lemma split_once_first:
  "sep \<notin> set a \<Longrightarrow> split_once sep (a @ sep # b) = [a, b]"
  by (induction a) auto

lemma split_once_none: "sep \<notin> set s \<Longrightarrow> split_once sep s = [s]"
  by (induction s) auto

subsection \<open>Text that can be encoded\<close>

lemma encode_cp_scalar: "scalar_value c \<Longrightarrow> \<exists>bs. encode_cp c = Some bs"
  by (auto simp: scalar_value_def)

lemma str_encode_text: "unicode_text s \<Longrightarrow> \<exists>bs. str_encode s = Some bs"
proof (induction s)
  case Nil
  then show ?case by simp
next
  case (Cons c cs)
  then obtain r where r: "str_encode cs = Some r" by (auto simp: unicode_text_def)
  from Cons.prems obtain bs where bs: "encode_cp c = Some bs"
    using encode_cp_scalar [of c] by (auto simp: unicode_text_def)
  show ?case using r bs by (simp del: encode_cp.simps)
qed

lemma str_encode_Some_text: "str_encode s = Some bs \<Longrightarrow> unicode_text s"
proof (induction s arbitrary: bs)
  case Nil
  then show ?case by (simp add: unicode_text_def)
next
  case (Cons c cs)
  then show ?case
    by (auto simp: unicode_text_def scalar_value_def split: option.splits if_splits)
qed

lemma unicode_text_append: "unicode_text (a @ b) = (unicode_text a \<and> unicode_text b)"
  by (simp add: unicode_text_def)

lemma unicode_text_colon: "unicode_text (str_of '':'')"
  by (simp add: unicode_text_def str_of_def scalar_value_def)

lemma str_of_colon: "str_of '':'' = [58]"
  by (simp add: str_of_def)

lemma issue_token_text:
  assumes "unicode_text r" "unicode_text e"
  shows "\<exists>bs. str_encode (r @ 58 # e) = Some bs \<and> issue_token e r = Inr (bytes_hex bs)"
proof -
  have "unicode_text (r @ str_of '':'' @ e)"
    using assms by (simp add: unicode_text_append unicode_text_colon)
  then obtain bs where "str_encode (r @ str_of '':'' @ e) = Some bs"
    using str_encode_text by blast
  then show ?thesis by (simp add: issue_token_def str_of_colon)
qed

lemma parse_token_hex:
  assumes "str_encode (r @ 58 # e) = Some bs" "58 \<notin> set r"
  shows "parse_token (bytes_hex bs) = Inr \<lparr>tok_role = r, tok_email = e\<rparr>"
proof -
  have "bytes_fromhex (bytes_hex bs) = Some bs"
    using assms(1) str_encode_lt256 by (intro fromhex_hex) blast
  moreover have "bytes_decode bs = Some (r @ 58 # e)"
    using assms(1) by (rule decode_encode)
  moreover have "split_once 58 (r @ 58 # e) = [r, e]"
    using assms(2) by (rule split_once_first)
  ultimately show ?thesis by (simp add: parse_token_def)
qed

subsection \<open>What \<open>fromhex\<close> rejects\<close>

lemma fromhex_bad_char:
  "\<exists>c\<in>set t. digitvalue c = None \<and> \<not> ascii_space c \<Longrightarrow> bytes_fromhex t = None"
proof (induction t rule: bytes_fromhex.induct)
  case 1
  then show ?case by simp
next
  case (2 c cs)
  show ?case
  proof (cases "ascii_space c")
    case True
    then show ?thesis using 2 by auto
  next
    case False
    show ?thesis
    proof (cases "digitvalue c")
      case None
      then show ?thesis using False by simp
    next
      case (Some hi)
      show ?thesis
      proof (cases cs)
        case Nil
        then show ?thesis using False Some by simp
      next
        case (Cons d r)
        show ?thesis
        proof (cases "digitvalue d")
          case None
          then show ?thesis using False Some Cons by simp
        next
          case lo: (Some lo)
          have "\<exists>c\<in>set r. digitvalue c = None \<and> \<not> ascii_space c"
            using "2.prems" Some lo Cons by auto
          then have "bytes_fromhex r = None"
            using "2.IH"(2) False Some Cons lo by blast
          then show ?thesis using False Some Cons lo by simp
        qed
      qed
    qed
  qed
qed

lemma digit_not_space: "digitvalue c = Some d \<Longrightarrow> \<not> ascii_space c"
  by (auto simp: digitvalue_def ascii_space_def split: if_splits)

lemma fromhex_odd_digits:
  "list_all (\<lambda>c. digitvalue c \<noteq> None) t \<Longrightarrow> odd (length t) \<Longrightarrow> bytes_fromhex t = None"
proof (induction t rule: induct_list012)
  case 1
  then show ?case by simp
next
  case (2 c)
  then obtain d where "digitvalue c = Some d" by auto
  then show ?case using digit_not_space [of c d] by simp
next
  case (3 c d r)
  from "3.prems" obtain hi lo where hl: "digitvalue c = Some hi" "digitvalue d = Some lo"
    by auto
  have "bytes_fromhex r = None" using 3 by simp
  then show ?case using hl digit_not_space [of c hi] by simp
qed

subsection \<open>Splitting at whitespace\<close>

lemma split_run_no_space:
  "\<forall>c\<in>set t. \<not> isspace c \<Longrightarrow> split_run w t = (if w @ t = [] then [] else [w @ t])"
  by (induction t arbitrary: w) auto

lemma split_run_segments:
  "\<forall>c\<in>set w. \<not> isspace c \<Longrightarrow> x \<in> set (split_run w s) \<Longrightarrow> x \<noteq> [] \<and> (\<forall>c\<in>set x. \<not> isspace c)"
proof (induction s arbitrary: w)
  case Nil
  then show ?case by (auto split: if_splits)
next
  case (Cons c cs)
  show ?case
  proof (cases "isspace c")
    case True
    then have "x = w \<and> w \<noteq> [] \<or> x \<in> set (split_run [] cs)"
      using Cons.prems(2) by (auto split: if_splits)
    then show ?thesis
    proof
      assume "x = w \<and> w \<noteq> []"
      then show ?thesis using Cons.prems(1) by simp
    next
      assume "x \<in> set (split_run [] cs)"
      then show ?thesis using Cons.IH [of "[]"] by simp
    qed
  next
    case False
    then have "x \<in> set (split_run (w @ [c]) cs)" using Cons.prems(2) by simp
    moreover have "\<forall>d\<in>set (w @ [c]). \<not> isspace d" using Cons.prems(1) False by simp
    ultimately show ?thesis using Cons.IH [of "w @ [c]"] by blast
  qed
qed

lemma split_run_last:
  "isspace sp \<Longrightarrow> \<forall>c\<in>set tok. \<not> isspace c \<Longrightarrow> tok \<noteq> [] \<Longrightarrow>
   \<exists>ws. split_run w (pre @ sp # tok) = ws @ [tok]"
proof (induction pre arbitrary: w)
  case Nil
  have "split_run [] tok = [tok]" using Nil by (simp add: split_run_no_space)
  then show ?case using Nil(1) by (cases "w = []") auto
next
  case (Cons c cs)
  then obtain ws1 where 1: "split_run [] (cs @ sp # tok) = ws1 @ [tok]" by blast
  from Cons obtain ws2 where 2: "split_run (w @ [c]) (cs @ sp # tok) = ws2 @ [tok]" by blast
  show ?case
  proof (cases "isspace c")
    case True
    then show ?thesis using 1 by (cases "w = []") auto
  next
    case False
    then show ?thesis using 2 by simp
  qed
qed

lemma str_split_token:
  "\<forall>c\<in>set tok. \<not> isspace c \<Longrightarrow> tok \<noteq> [] \<Longrightarrow> str_split tok = [tok]"
  by (simp add: str_split_def split_run_no_space)

lemma str_split_last_token:
  assumes "isspace sp" "\<forall>c\<in>set tok. \<not> isspace c" "tok \<noteq> []"
  shows "str_split (pre @ sp # tok) \<noteq> [] \<and> last (str_split (pre @ sp # tok)) = tok"
proof -
  obtain ws where "split_run [] (pre @ sp # tok) = ws @ [tok]"
    using split_run_last [OF assms] by blast
  then show ?thesis by (simp add: str_split_def)
qed

lemma str_split_last_segment:
  assumes "str_split h \<noteq> []"
  shows "last (str_split h) \<noteq> [] \<and> str_split (last (str_split h)) = [last (str_split h)]"
proof -
  have "last (str_split h) \<in> set (str_split h)" using assms by simp
  then have "last (str_split h) \<noteq> [] \<and> (\<forall>c\<in>set (last (str_split h)). \<not> isspace c)"
    using split_run_segments [of "[]" "last (str_split h)" h] by (simp add: str_split_def)
  then show ?thesis using str_split_token by blast
qed

lemma str_split_nonempty: "str_split h \<noteq> [] \<Longrightarrow> h \<noteq> []"
  by (auto simp: str_split_def)

section \<open>Properties of the codec, the login and the guard\<close>

lemma get_current_user_parts:
  assumes "str_split h \<noteq> []"
  shows "get_current_user db (Some h) =
     (case parse_token (last (str_split h)) of
        Inl e \<Rightarrow> Inl e
      | Inr payload \<Rightarrow>
          (case db of
             None \<Rightarrow> Inl TypeError
           | Some users \<Rightarrow>
               (case find_one users (tok_email payload) of
                  None \<Rightarrow> Inl Unauthorized
                | Some u \<Rightarrow>
                    if is_active u \<noteq> Some True then Inl Unauthorized
                    else
                      Inr \<lparr>cur_email = tok_email payload,
                           cur_role = tok_role payload,
                           cur_name = dict_get (name u) (tok_email payload)\<rparr>)))"
proof -
  have "h \<noteq> []" using assms by (rule str_split_nonempty)
  then show ?thesis using assms by (simp add: get_current_user_def Let_def)
qed

lemma find_one_map_role:
  "find_one (map (\<lambda>u. u\<lparr>role := f u\<rparr>) users) e = map_option (\<lambda>u. u\<lparr>role := f u\<rparr>) (find_one users e)"
  by (induction users) (auto simp: find_one_def)

lemma str_split_empty_iff: "split_run w h = [] \<longleftrightarrow> w = [] \<and> (\<forall>c\<in>set h. isspace c)"
  by (induction h arbitrary: w) auto

lemma hexdigit_not_isspace: "d < 16 \<Longrightarrow> \<not> isspace (hexdigit d)"
  by (auto simp: isspace_def hexdigit_def)

lemma bytes_hex_no_space:
  "\<forall>b\<in>set bs. b < 256 \<Longrightarrow> \<forall>c\<in>set (bytes_hex bs). \<not> isspace c"
proof (induction bs)
  case Nil
  then show ?case by simp
next
  case (Cons b bs)
  have "b < 256" using Cons.prems by simp
  then have "b div 16 < 16" by linarith
  moreover have "b mod 16 < 16" by simp
  ultimately show ?case using Cons by (simp add: hexdigit_not_isspace)
qed

lemma str_encode_nonempty: "str_encode s = Some bs \<Longrightarrow> s \<noteq> [] \<Longrightarrow> bs \<noteq> []"
  by (cases s) (auto split: option.splits if_splits)

lemma issued_token_shape:
  assumes "issue_token e r = Inr t"
  shows "\<exists>bs. str_encode (r @ 58 # e) = Some bs \<and> t = bytes_hex bs \<and> t \<noteq> []
              \<and> (\<forall>c\<in>set t. \<not> isspace c)"
proof -
  obtain bs where bs: "str_encode (r @ 58 # e) = Some bs" and t: "t = bytes_hex bs"
    using assms by (auto simp: issue_token_def str_of_colon split: option.splits)
  have "bs \<noteq> []" using bs by (rule str_encode_nonempty) simp
  then have ne: "t \<noteq> []" using t by (cases bs) simp_all
  have "\<forall>b\<in>set bs. b < 256" using bs str_encode_lt256 by blast
  then have "\<forall>c\<in>set t. \<not> isspace c" unfolding t by (rule bytes_hex_no_space)
  then show ?thesis using bs t ne by blast
qed

lemma issued_token_parses:
  assumes "issue_token e r = Inr t" "58 \<notin> set r"
  shows "parse_token t = Inr \<lparr>tok_role = r, tok_email = e\<rparr>"
proof -
  obtain bs where "str_encode (r @ 58 # e) = Some bs" "t = bytes_hex bs"
    using issued_token_shape [OF assms(1)] by blast
  then show ?thesis using parse_token_hex assms(2) by simp
qed

lemma bearer_header:
  assumes "issue_token e r = Inr t"
  shows "str_split (str_of ''Bearer '' @ t) \<noteq> [] \<and> last (str_split (str_of ''Bearer '' @ t)) = t"
proof -
  have h: "str_of ''Bearer '' @ t = str_of ''Bearer'' @ 32 # t" by (simp add: str_of_def)
  have sp: "isspace 32" by (simp add: isspace_def)
  have "t \<noteq> []" and "\<forall>c\<in>set t. \<not> isspace c"
    using issued_token_shape [OF assms] by blast+
  then show ?thesis unfolding h using str_split_last_token [OF sp] by blast
qed

lemma guard_after_split:
  assumes "str_split h \<noteq> []" "parse_token (last (str_split h)) = Inr p"
  shows "get_current_user (Some users) (Some h) =
     (case find_one users (tok_email p) of
        None \<Rightarrow> Inl Unauthorized
      | Some u \<Rightarrow>
          if is_active u \<noteq> Some True then Inl Unauthorized
          else Inr \<lparr>cur_email = tok_email p, cur_role = tok_role p,
                    cur_name = dict_get (name u) (tok_email p)\<rparr>)"
  using get_current_user_parts [OF assms(1), of "Some users"] assms(2) by simp

lemma login_success:
  assumes "login ev (Some users) p = Inr resp" "find_one users (req_email p) = Some u"
  shows "password u = Some (req_password p) \<and> is_active u \<noteq> Some False
         \<and> issue_token (req_email p) (dict_get (role u) (str_of ''employee'')) = Inr (resp_token resp)
         \<and> resp_role resp = dict_get (role u) (str_of ''employee'')
         \<and> resp_name resp = dict_get (name u) (req_email p)
         \<and> EmailStr ev (req_email p) = Some (resp_email resp)"
  using assms
  by (auto simp: login_def dict_get_def split: if_splits sum.splits option.splits)

lemma get_current_user_success:
  assumes "get_current_user db a = Inr ctx"
  shows "\<exists>users u. db = Some users \<and> find_one users (cur_email ctx) = Some u
                  \<and> is_active u = Some True"
  using assms
  by (auto simp: get_current_user_def Let_def split: option.splits if_splits sum.splits)

subsection \<open>The seeded store and the outcomes of the guard\<close>

lemma seeded_store:
  "seed_users (Some []) =
     Some [\<lparr>email = str_of ''admin'', password = Some (str_of ''admin''),
            name = Some (str_of ''Administrator''), role = Some (str_of ''admin''),
            is_active = Some True\<rparr>,
           \<lparr>email = str_of ''karyawan'', password = Some (str_of ''karyawan''),
            name = Some (str_of ''Karyawan''), role = Some (str_of ''employee''),
            is_active = Some True\<rparr>]"
  by (simp add: seed_users_def count_documents_def create_document_def str_of_def)

lemma admin_token: "issue_token (str_of ''admin'') (str_of ''admin'') = Inr (str_of ''61646d696e3a61646d696e'')"
  by (simp add: issue_token_def str_of_def hexdigit_def)

lemma admin_token_parses:
  "parse_token (str_of ''61646d696e3a61646d696e'')
     = Inr \<lparr>tok_role = str_of ''admin'', tok_email = str_of ''admin''\<rparr>"
  using issued_token_parses [OF admin_token] by (simp add: str_of_def)

lemma admin_token_no_space:
  "str_of ''61646d696e3a61646d696e'' \<noteq> [] \<and> (\<forall>c\<in>set (str_of ''61646d696e3a61646d696e''). \<not> isspace c)"
  using issued_token_shape [OF admin_token] by blast

lemma seeded_admin_authenticates:
  "get_current_user (seed_users (Some [])) (Some (str_of ''Bearer '' @ str_of ''61646d696e3a61646d696e''))
     = Inr \<lparr>cur_email = str_of ''admin'', cur_role = str_of ''admin'',
            cur_name = str_of ''Administrator''\<rparr>"
proof -
  let ?h = "str_of ''Bearer '' @ str_of ''61646d696e3a61646d696e''"
  have 1: "str_split ?h \<noteq> []" and 2: "last (str_split ?h) = str_of ''61646d696e3a61646d696e''"
    using bearer_header [OF admin_token] by blast+
  have 3: "parse_token (last (str_split ?h))
     = Inr \<lparr>tok_role = str_of ''admin'', tok_email = str_of ''admin''\<rparr>"
    using 2 admin_token_parses by simp
  show ?thesis
    unfolding seeded_store using guard_after_split [OF 1 3]
    by (simp add: find_one_def dict_get_def)
qed

lemma seeded_admin_passes_guard:
  "admin_only \<lparr>cur_email = str_of ''admin'', cur_role = str_of ''admin'',
               cur_name = str_of ''Administrator''\<rparr> = Inr ()
   \<and> admin_only \<lparr>cur_email = str_of ''karyawan'', cur_role = str_of ''employee'',
               cur_name = str_of ''Karyawan''\<rparr> = Inl Forbidden"
  by (simp add: admin_only_def str_of_def)

lemma parse_token_error: "parse_token t = Inl e \<Longrightarrow> e = InvalidToken"
  by (auto simp: parse_token_def split: option.splits list.splits)

lemma index_error_iff:
  "get_current_user db a = Inl IndexError
     \<longleftrightarrow> (\<exists>h. a = Some h \<and> h \<noteq> [] \<and> (\<forall>c\<in>set h. isspace c))"
proof (cases a)
  case None
  then show ?thesis by (simp add: get_current_user_def)
next
  case (Some h)
  show ?thesis
  proof (cases "str_split h = []")
    case True
    then have "\<forall>c\<in>set h. isspace c" by (simp add: str_split_def str_split_empty_iff)
    then show ?thesis using Some True by (simp add: get_current_user_def)
  next
    case False
    then have ns: "\<not> (\<forall>c\<in>set h. isspace c)" by (simp add: str_split_def str_split_empty_iff)
    have "get_current_user db (Some h) \<noteq> Inl IndexError"
      using get_current_user_parts [OF False, of db] parse_token_error
      by (auto split: sum.splits option.splits if_splits)
    then show ?thesis using Some ns by simp
  qed
qed

lemma unconfigured_store_crashes:
  "get_current_user None (Some (str_of ''61646d696e3a61646d696e'')) = Inl TypeError"
proof -
  let ?t = "str_of ''61646d696e3a61646d696e''"
  have s: "str_split ?t = [?t]" using admin_token_no_space str_split_token by blast
  then have 1: "str_split ?t \<noteq> []" and 2: "last (str_split ?t) = ?t" by simp_all
  show ?thesis using get_current_user_parts [OF 1, of None] 2 admin_token_parses by simp
qed

lemma absent_flag_rejected:
  assumes "str_split h \<noteq> []" "parse_token (last (str_split h)) = Inr p"
    "find_one users (tok_email p) = Some u" "is_active u = None"
  shows "get_current_user (Some users) (Some h) = Inl Unauthorized"
  using guard_after_split [OF assms(1,2), of users] assms(3,4) by simp

lemma spaced_token_never_issued: "issue_token e r \<noteq> Inr (str_of ''61 3a 62'')"
proof
  assume "issue_token e r = Inr (str_of ''61 3a 62'')"
  then have "\<forall>c\<in>set (str_of ''61 3a 62''). \<not> isspace c"
    using issued_token_shape by blast
  then show False by (simp add: str_of_def isspace_def)
qed

section \<open>The claims\<close>

text \<open>
  C2. For every role and identity that are Unicode text (the strings \<open>str.encode()\<close>
  accepts), the role without a colon: \<open>issue_token\<close> returns a token, and
  \<open>parse_token\<close> of that token returns exactly the role and the identity. The identity
  may contain colons, since the decoded string is split at its first colon only.
\<close>

theorem issue_parse_roundtrip:
  assumes "unicode_text r" and "unicode_text identity" and "58 \<notin> set r"
  shows "\<exists>t. issue_token identity r = Inr t
           \<and> parse_token t = Inr \<lparr>tok_role = r, tok_email = identity\<rparr>"
proof -
  obtain bs where bs: "str_encode (r @ 58 # identity) = Some bs"
    and t: "issue_token identity r = Inr (bytes_hex bs)"
    using issue_token_text [OF assms(1,2)] by blast
  show ?thesis using t parse_token_hex [OF bs assms(3)] by simp
qed

theorem issue_parse_roundtrip_witness:
  "unicode_text (str_of ''admin'') \<and> unicode_text (str_of ''a:b@c.d'') \<and> 58 \<notin> set (str_of ''admin'')
   \<and> issue_token (str_of ''a:b@c.d'') (str_of ''admin'') = Inr (str_of ''61646d696e3a613a6240632e64'')
   \<and> parse_token (str_of ''61646d696e3a613a6240632e64'')
       = Inr \<lparr>tok_role = str_of ''admin'', tok_email = str_of ''a:b@c.d''\<rparr>"
proof -
  have h1: "unicode_text (str_of ''admin'')"
    by (simp add: unicode_text_def str_of_def scalar_value_def)
  have h2: "unicode_text (str_of ''a:b@c.d'')"
    by (simp add: unicode_text_def str_of_def scalar_value_def)
  have h3: "58 \<notin> set (str_of ''admin'')"
    by (simp add: str_of_def)
  have t: "issue_token (str_of ''a:b@c.d'') (str_of ''admin'') = Inr (str_of ''61646d696e3a613a6240632e64'')"
    by (simp add: issue_token_def str_of_def hexdigit_def)
  show ?thesis using h1 h2 h3 t issue_parse_roundtrip [OF h1 h2 h3] by auto
qed

text \<open>
  C4, as amended. \<open>parse_token\<close> fails with the 401 "Invalid token" on every token
  that \<open>fromhex\<close> rejects: in particular on every token with a character that is
  neither a hexadecimal digit, of either case, nor ASCII whitespace, and on every token
  of hexadecimal digits of odd length. It fails in the same way on every token whose
  bytes are not valid UTF-8 and on every token whose decoded string has no colon, and
  it fails with no other error.
\<close>

theorem parse_token_rejects:
  "(bytes_fromhex t = None \<longrightarrow> parse_token t = Inl InvalidToken)
   \<and> ((\<exists>c\<in>set t. digitvalue c = None \<and> \<not> ascii_space c) \<longrightarrow> parse_token t = Inl InvalidToken)
   \<and> (list_all (\<lambda>c. digitvalue c \<noteq> None) t \<and> odd (length t)
        \<longrightarrow> parse_token t = Inl InvalidToken)
   \<and> (\<forall>bs. bytes_fromhex t = Some bs \<and> bytes_decode bs = None
          \<longrightarrow> parse_token t = Inl InvalidToken)
   \<and> (\<forall>bs s. bytes_fromhex t = Some bs \<and> bytes_decode bs = Some s \<and> 58 \<notin> set s
          \<longrightarrow> parse_token t = Inl InvalidToken)
   \<and> (\<forall>e. parse_token t = Inl e \<longrightarrow> e = InvalidToken)"
proof (intro conjI allI impI)
  assume "bytes_fromhex t = None"
  then show "parse_token t = Inl InvalidToken" by (simp add: parse_token_def)
next
  assume "\<exists>c\<in>set t. digitvalue c = None \<and> \<not> ascii_space c"
  then have "bytes_fromhex t = None" by (rule fromhex_bad_char)
  then show "parse_token t = Inl InvalidToken" by (simp add: parse_token_def)
next
  assume "list_all (\<lambda>c. digitvalue c \<noteq> None) t \<and> odd (length t)"
  then have "bytes_fromhex t = None" using fromhex_odd_digits by blast
  then show "parse_token t = Inl InvalidToken" by (simp add: parse_token_def)
next
  fix bs assume "bytes_fromhex t = Some bs \<and> bytes_decode bs = None"
  then show "parse_token t = Inl InvalidToken" by (simp add: parse_token_def)
next
  fix bs s assume "bytes_fromhex t = Some bs \<and> bytes_decode bs = Some s \<and> 58 \<notin> set s"
  then show "parse_token t = Inl InvalidToken"
    by (simp add: parse_token_def split_once_none)
next
  fix e assume "parse_token t = Inl e"
  then show "e = InvalidToken"
    by (auto simp: parse_token_def split: option.splits list.splits)
qed

theorem parse_token_rejects_witness:
  "bytes_fromhex (str_of ''6 1'') = None \<and> parse_token (str_of ''6 1'') = Inl InvalidToken
   \<and> (\<exists>c\<in>set (str_of ''zz''). digitvalue c = None \<and> \<not> ascii_space c)
   \<and> parse_token (str_of ''zz'') = Inl InvalidToken
   \<and> list_all (\<lambda>c. digitvalue c \<noteq> None) (str_of ''613'') \<and> odd (length (str_of ''613''))
   \<and> parse_token (str_of ''613'') = Inl InvalidToken
   \<and> bytes_fromhex (str_of ''ff'') = Some [255] \<and> bytes_decode [255] = None
   \<and> parse_token (str_of ''ff'') = Inl InvalidToken
   \<and> bytes_fromhex (str_of ''6162'') = Some [97, 98] \<and> bytes_decode [97, 98] = Some [97, 98]
   \<and> 58 \<notin> set [97, 98 :: nat]
   \<and> parse_token (str_of ''6162'') = Inl InvalidToken"
proof -
  have a: "bytes_fromhex (str_of ''6 1'') = None"
    by (simp add: str_of_def digitvalue_def ascii_space_def)
  have b: "\<exists>c\<in>set (str_of ''zz''). digitvalue c = None \<and> \<not> ascii_space c"
    by (simp add: str_of_def digitvalue_def ascii_space_def)
  have o: "list_all (\<lambda>c. digitvalue c \<noteq> None) (str_of ''613'') \<and> odd (length (str_of ''613''))"
    by (simp add: str_of_def digitvalue_def)
  have c: "bytes_fromhex (str_of ''ff'') = Some [255] \<and> bytes_decode [255] = None"
    by (simp add: str_of_def digitvalue_def ascii_space_def)
  have d: "bytes_fromhex (str_of ''6162'') = Some [97, 98] \<and> bytes_decode [97, 98] = Some [97, 98]
            \<and> 58 \<notin> set [97, 98 :: nat]"
    by (simp add: str_of_def digitvalue_def ascii_space_def)
  note t = parse_token_rejects
  have 1: "parse_token (str_of ''6 1'') = Inl InvalidToken"
    using t [of "str_of ''6 1''"] a by blast
  have 2: "parse_token (str_of ''zz'') = Inl InvalidToken"
    using t [of "str_of ''zz''"] b by blast
  have 3: "parse_token (str_of ''ff'') = Inl InvalidToken"
    using t [of "str_of ''ff''"] c by blast
  have 4: "parse_token (str_of ''6162'') = Inl InvalidToken"
    using t [of "str_of ''6162''"] d by blast
  have 5: "parse_token (str_of ''613'') = Inl InvalidToken"
    using t [of "str_of ''613''"] o by blast
  show ?thesis using a b c d o 1 2 3 4 5 by blast
qed

text \<open>
  C4 as it was stated does not hold. The string \<open>61 3a 62\<close> has spaces, which are no
  hexadecimal digits, and \<open>issue_token\<close> never returns it
  (\<open>spaced_token_never_issued\<close>); \<open>fromhex\<close> skips the spaces, and \<open>parse_token\<close>
  returns the role \<open>a\<close> and the identity \<open>b\<close>.
\<close>

theorem parse_token_spaced_counterexample:
  "32 \<in> set (str_of ''61 3a 62'') \<and> digitvalue 32 = None
   \<and> parse_token (str_of ''61 3a 62'') = Inr \<lparr>tok_role = str_of ''a'', tok_email = str_of ''b''\<rparr>
   \<and> parse_token (str_of ''61 3a 62'') \<noteq> Inl InvalidToken
   \<and> issue_token (str_of ''b'') (str_of ''a'') = Inr (str_of ''613a62'')
   \<and> str_of ''613a62'' \<noteq> str_of ''61 3a 62''"
  by (simp add: parse_token_def issue_token_def str_of_def digitvalue_def ascii_space_def
        hexdigit_def)

text \<open>
  Upper case is a second way out of the image of \<open>issue_token\<close>: \<open>fromhex\<close> takes
  upper-case digits, and \<open>issue_token\<close> writes lower case only.
\<close>

lemma uppercase_token_accepted:
  "parse_token (str_of ''613A62'') = Inr \<lparr>tok_role = str_of ''a'', tok_email = str_of ''b''\<rparr>
   \<and> issue_token (str_of ''b'') (str_of ''a'') = Inr (str_of ''613a62'')"
  by (simp add: parse_token_def issue_token_def str_of_def digitvalue_def ascii_space_def hexdigit_def)

text \<open>
  C3. With a store configured, \<open>login\<close> fails with the 401 "Invalid credentials" both
  when no record has the identity and when the record's password is not the one
  supplied; it fails with the 403 "User is inactive" when the password matches and
  \<open>is_active\<close> is false. The two errors differ, and so do their status codes.
\<close>

theorem login_failures:
  "(find_one users (req_email p) = None \<longrightarrow> login ev (Some users) p = Inl InvalidCredentials)
   \<and> (\<forall>u. find_one users (req_email p) = Some u \<and> password u \<noteq> Some (req_password p)
          \<longrightarrow> login ev (Some users) p = Inl InvalidCredentials)
   \<and> (\<forall>u. find_one users (req_email p) = Some u \<and> password u = Some (req_password p)
            \<and> is_active u = Some False
          \<longrightarrow> login ev (Some users) p = Inl AccountInactive)
   \<and> AccountInactive \<noteq> InvalidCredentials
   \<and> status_code AccountInactive \<noteq> status_code InvalidCredentials"
  by (simp add: login_def dict_get_def)

theorem login_failures_witness:
  "find_one [] (str_of ''a@b.co'') = None
   \<and> login Some (Some []) \<lparr>req_email = str_of ''a@b.co'', req_password = str_of ''secret''\<rparr>
       = Inl InvalidCredentials
   \<and> login Some
        (Some [\<lparr>email = str_of ''a@b.co'', password = Some (str_of ''secret''), name = None,
                role = None, is_active = Some False\<rparr>])
        \<lparr>req_email = str_of ''a@b.co'', req_password = str_of ''wrong''\<rparr>
       = Inl InvalidCredentials
   \<and> login Some
        (Some [\<lparr>email = str_of ''a@b.co'', password = Some (str_of ''secret''), name = None,
                role = None, is_active = Some False\<rparr>])
        \<lparr>req_email = str_of ''a@b.co'', req_password = str_of ''secret''\<rparr>
       = Inl AccountInactive"
proof -
  let ?u = "\<lparr>email = str_of ''a@b.co'', password = Some (str_of ''secret''), name = None,
              role = None, is_active = Some False\<rparr>"
  let ?good = "\<lparr>req_email = str_of ''a@b.co'', req_password = str_of ''secret''\<rparr>"
  let ?bad = "\<lparr>req_email = str_of ''a@b.co'', req_password = str_of ''wrong''\<rparr>"
  have a: "find_one [] (req_email ?good) = None"
    by (simp add: find_one_def)
  have f1: "find_one [?u] (req_email ?bad) = Some ?u" by (simp add: find_one_def)
  have f2: "find_one [?u] (req_email ?good) = Some ?u" by (simp add: find_one_def)
  have b: "password ?u \<noteq> Some (req_password ?bad)" by (simp add: str_of_def)
  have c: "password ?u = Some (req_password ?good) \<and> is_active ?u = Some False" by simp
  have 1: "login Some (Some []) ?good = Inl InvalidCredentials"
    using login_failures [of "[]" ?good Some] a by blast
  have 2: "login Some (Some [?u]) ?bad = Inl InvalidCredentials"
    using login_failures [of "[?u]" ?bad Some] f1 b by blast
  have 3: "login Some (Some [?u]) ?good = Inl AccountInactive"
    using login_failures [of "[?u]" ?good Some] f2 c by blast
  show ?thesis using a 1 2 3 by simp
qed

text \<open>
  C9. Without a header value \<open>get_current_user\<close> fails with the 401 "Missing
  Authorization header". With a header value that has a segment at all, the token that
  is parsed is the last whitespace-separated segment: the outcome is the error of
  \<open>parse_token\<close> on that segment, or the lookup of the identity that \<open>parse_token\<close>
  decoded from it, with the role it decoded. So for a header that ends in a
  whitespace character and a segment \<open>tok\<close>, whatever stands before them, a scheme
  word or anything else, the segment parsed is \<open>tok\<close>, and the outcome is the outcome
  for the header \<open>tok\<close> alone.
\<close>

theorem last_segment_is_the_token:
  "get_current_user db None = Inl MissingCredentials
   \<and> (str_split h \<noteq> [] \<longrightarrow>
        get_current_user db (Some h) =
          (case parse_token (last (str_split h)) of
             Inl e \<Rightarrow> Inl e
           | Inr payload \<Rightarrow>
               (case db of
                  None \<Rightarrow> Inl TypeError
                | Some users \<Rightarrow>
                    (case find_one users (tok_email payload) of
                       None \<Rightarrow> Inl Unauthorized
                     | Some u \<Rightarrow>
                         if is_active u \<noteq> Some True then Inl Unauthorized
                         else
                           Inr \<lparr>cur_email = tok_email payload,
                                cur_role = tok_role payload,
                                cur_name = dict_get (name u) (tok_email payload)\<rparr>)))
        \<and> get_current_user db (Some h) = get_current_user db (Some (last (str_split h))))
   \<and> (\<forall>pre sp tok. isspace sp \<and> tok \<noteq> [] \<and> (\<forall>c\<in>set tok. \<not> isspace c) \<longrightarrow>
        last (str_split (pre @ sp # tok)) = tok
        \<and> get_current_user db (Some (pre @ sp # tok)) =
          (case parse_token tok of
             Inl e \<Rightarrow> Inl e
           | Inr payload \<Rightarrow>
               (case db of
                  None \<Rightarrow> Inl TypeError
                | Some users \<Rightarrow>
                    (case find_one users (tok_email payload) of
                       None \<Rightarrow> Inl Unauthorized
                     | Some u \<Rightarrow>
                         if is_active u \<noteq> Some True then Inl Unauthorized
                         else
                           Inr \<lparr>cur_email = tok_email payload,
                                cur_role = tok_role payload,
                                cur_name = dict_get (name u) (tok_email payload)\<rparr>)))
        \<and> get_current_user db (Some (pre @ sp # tok)) = get_current_user db (Some tok))"
proof (intro conjI allI impI)
  show "get_current_user db None = Inl MissingCredentials"
    by (simp add: get_current_user_def)
next
  assume h: "str_split h \<noteq> []"
  show "get_current_user db (Some h) =
          (case parse_token (last (str_split h)) of
             Inl e \<Rightarrow> Inl e
           | Inr payload \<Rightarrow>
               (case db of
                  None \<Rightarrow> Inl TypeError
                | Some users \<Rightarrow>
                    (case find_one users (tok_email payload) of
                       None \<Rightarrow> Inl Unauthorized
                     | Some u \<Rightarrow>
                         if is_active u \<noteq> Some True then Inl Unauthorized
                         else
                           Inr \<lparr>cur_email = tok_email payload,
                                cur_role = tok_role payload,
                                cur_name = dict_get (name u) (tok_email payload)\<rparr>)))"
    using h by (rule get_current_user_parts)
next
  assume h: "str_split h \<noteq> []"
  let ?t = "last (str_split h)"
  have t: "str_split ?t = [?t]" using str_split_last_segment [OF h] by blast
  then have "str_split ?t \<noteq> []" and "last (str_split ?t) = ?t" by simp_all
  then show "get_current_user db (Some h) = get_current_user db (Some ?t)"
    using get_current_user_parts [OF h, of db] get_current_user_parts [of ?t db] by simp
next
  fix pre sp tok
  assume a: "isspace sp \<and> tok \<noteq> [] \<and> (\<forall>c\<in>set tok. \<not> isspace c)"
  then show "last (str_split (pre @ sp # tok)) = tok"
    using str_split_last_token [of sp tok pre] by blast
next
  fix pre sp tok
  assume a: "isspace sp \<and> tok \<noteq> [] \<and> (\<forall>c\<in>set tok. \<not> isspace c)"
  then have 1: "str_split (pre @ sp # tok) \<noteq> []" and 2: "last (str_split (pre @ sp # tok)) = tok"
    using str_split_last_token [of sp tok pre] by blast+
  show "get_current_user db (Some (pre @ sp # tok)) =
          (case parse_token tok of
             Inl e \<Rightarrow> Inl e
           | Inr payload \<Rightarrow>
               (case db of
                  None \<Rightarrow> Inl TypeError
                | Some users \<Rightarrow>
                    (case find_one users (tok_email payload) of
                       None \<Rightarrow> Inl Unauthorized
                     | Some u \<Rightarrow>
                         if is_active u \<noteq> Some True then Inl Unauthorized
                         else
                           Inr \<lparr>cur_email = tok_email payload,
                                cur_role = tok_role payload,
                                cur_name = dict_get (name u) (tok_email payload)\<rparr>)))"
    using get_current_user_parts [OF 1, of db] 2 by simp
next
  fix pre sp tok
  assume a: "isspace sp \<and> tok \<noteq> [] \<and> (\<forall>c\<in>set tok. \<not> isspace c)"
  then have 1: "str_split (pre @ sp # tok) \<noteq> []" and 2: "last (str_split (pre @ sp # tok)) = tok"
    using str_split_last_token [of sp tok pre] by blast+
  have 3: "str_split tok = [tok]" using a str_split_token by blast
  then have 4: "str_split tok \<noteq> []" and 5: "last (str_split tok) = tok" by simp_all
  show "get_current_user db (Some (pre @ sp # tok)) = get_current_user db (Some tok)"
    using get_current_user_parts [OF 1, of db] get_current_user_parts [OF 4, of db] 2 5 by simp
qed

theorem last_segment_is_the_token_witness:
  "get_current_user (seed_users (Some [])) None = Inl MissingCredentials
   \<and> str_split (str_of ''Basic x 61646d696e3a61646d696e'')
       = [str_of ''Basic'', str_of ''x'', str_of ''61646d696e3a61646d696e'']
   \<and> parse_token (str_of ''61646d696e3a61646d696e'')
       = Inr \<lparr>tok_role = str_of ''admin'', tok_email = str_of ''admin''\<rparr>
   \<and> get_current_user (seed_users (Some [])) (Some (str_of ''Basic x 61646d696e3a61646d696e''))
       = Inr \<lparr>cur_email = str_of ''admin'', cur_role = str_of ''admin'',
              cur_name = str_of ''Administrator''\<rparr>
   \<and> get_current_user (seed_users (Some [])) (Some (str_of ''Basic x 61646d696e3a61646d696e''))
       = get_current_user (seed_users (Some [])) (Some (str_of ''61646d696e3a61646d696e''))
   \<and> isspace 32 \<and> str_of ''61646d696e3a61646d696e'' \<noteq> []
   \<and> list_all (\<lambda>c. \<not> isspace c) (str_of ''61646d696e3a61646d696e'')
   \<and> last (str_split (str_of ''Basic x'' @ 32 # str_of ''61646d696e3a61646d696e''))
       = str_of ''61646d696e3a61646d696e''
   \<and> get_current_user (seed_users (Some []))
        (Some (str_of ''Basic x'' @ 32 # str_of ''61646d696e3a61646d696e''))
       = Inr \<lparr>cur_email = str_of ''admin'', cur_role = str_of ''admin'',
              cur_name = str_of ''Administrator''\<rparr>
   \<and> parse_token (str_of ''zz'') = Inl InvalidToken
   \<and> get_current_user (seed_users (Some [])) (Some (str_of ''Bearer'' @ 32 # str_of ''zz''))
       = Inl InvalidToken"
proof -
  let ?db = "seed_users (Some [])"
  let ?t = "str_of ''61646d696e3a61646d696e''"
  let ?h = "str_of ''Basic x 61646d696e3a61646d696e''"
  let ?ctx = "\<lparr>cur_email = str_of ''admin'', cur_role = str_of ''admin'',
              cur_name = str_of ''Administrator''\<rparr>"
  note inst = last_segment_is_the_token [of ?db ?h]
  have s: "str_split ?h = [str_of ''Basic'', str_of ''x'', ?t]"
    by (simp add: str_split_def isspace_def str_of_def)
  then have ne: "str_split ?h \<noteq> []" and l: "last (str_split ?h) = ?t" by simp_all
  have sp: "isspace 32" by (simp add: isspace_def)
  have ns: "list_all (\<lambda>c. \<not> isspace c) ?t"
    using admin_token_no_space by (simp add: list_all_iff)
  have 1: "get_current_user ?db None = Inl MissingCredentials" using inst by blast
  have "get_current_user ?db (Some ?h) =
          (case parse_token (last (str_split ?h)) of
             Inl e \<Rightarrow> Inl e
           | Inr payload \<Rightarrow>
               (case ?db of
                  None \<Rightarrow> Inl TypeError
                | Some users \<Rightarrow>
                    (case find_one users (tok_email payload) of
                       None \<Rightarrow> Inl Unauthorized
                     | Some u \<Rightarrow>
                         if is_active u \<noteq> Some True then Inl Unauthorized
                         else
                           Inr \<lparr>cur_email = tok_email payload,
                                cur_role = tok_role payload,
                                cur_name = dict_get (name u) (tok_email payload)\<rparr>)))"
    using inst ne by blast
  then have 2: "get_current_user ?db (Some ?h) = Inr ?ctx"
    unfolding l admin_token_parses seeded_store by (simp add: find_one_def dict_get_def)
  have "get_current_user ?db (Some ?h) = get_current_user ?db (Some (last (str_split ?h)))"
    using inst ne by blast
  then have 3: "get_current_user ?db (Some ?h) = get_current_user ?db (Some ?t)"
    unfolding l .
  have hyp: "isspace 32 \<and> ?t \<noteq> [] \<and> (\<forall>c\<in>set ?t. \<not> isspace c)"
    using sp admin_token_no_space by blast
  have 4: "last (str_split (str_of ''Basic x'' @ 32 # ?t)) = ?t"
    using inst hyp by blast
  have "get_current_user ?db (Some (str_of ''Basic x'' @ 32 # ?t)) = get_current_user ?db (Some ?t)"
    using inst hyp by blast
  then have 5: "get_current_user ?db (Some (str_of ''Basic x'' @ 32 # ?t)) = Inr ?ctx"
    using 2 3 by simp
  have z: "parse_token (str_of ''zz'') = Inl InvalidToken"
    by (simp add: parse_token_def str_of_def digitvalue_def ascii_space_def)
  have hz: "isspace 32 \<and> str_of ''zz'' \<noteq> [] \<and> (\<forall>c\<in>set (str_of ''zz''). \<not> isspace c)"
    by (simp add: isspace_def str_of_def)
  have "get_current_user ?db (Some (str_of ''Bearer'' @ 32 # str_of ''zz'')) =
          (case parse_token (str_of ''zz'') of
             Inl e \<Rightarrow> Inl e
           | Inr payload \<Rightarrow>
               (case ?db of
                  None \<Rightarrow> Inl TypeError
                | Some users \<Rightarrow>
                    (case find_one users (tok_email payload) of
                       None \<Rightarrow> Inl Unauthorized
                     | Some u \<Rightarrow>
                         if is_active u \<noteq> Some True then Inl Unauthorized
                         else
                           Inr \<lparr>cur_email = tok_email payload,
                                cur_role = tok_role payload,
                                cur_name = dict_get (name u) (tok_email payload)\<rparr>)))"
    using inst hz by blast
  then have 6: "get_current_user ?db (Some (str_of ''Bearer'' @ 32 # str_of ''zz'')) = Inl InvalidToken"
    unfolding z by simp
  show ?thesis using 1 s admin_token_parses 2 3 sp admin_token_no_space ns 4 5 z 6 by blast
qed

text \<open>
  C8. When the last segment of the header parses and the record of the decoded identity
  is active, \<open>get_current_user\<close> returns the role decoded from the token. The stored
  role is never read: rewriting the \<open>role\<close> field of every record in any way leaves
  every outcome of \<open>get_current_user\<close> as it was.
\<close>

theorem role_from_token:
  "(\<forall>p u. str_split h \<noteq> [] \<and> parse_token (last (str_split h)) = Inr p
            \<and> find_one users (tok_email p) = Some u \<and> is_active u = Some True \<longrightarrow>
        get_current_user (Some users) (Some h)
          = Inr \<lparr>cur_email = tok_email p, cur_role = tok_role p,
                 cur_name = dict_get (name u) (tok_email p)\<rparr>)
   \<and> get_current_user (Some (map (\<lambda>u. u\<lparr>role := f u\<rparr>) users)) a
       = get_current_user (Some users) a"
proof (intro conjI allI impI)
  fix p u
  assume "str_split h \<noteq> [] \<and> parse_token (last (str_split h)) = Inr p
            \<and> find_one users (tok_email p) = Some u \<and> is_active u = Some True"
  then show "get_current_user (Some users) (Some h)
          = Inr \<lparr>cur_email = tok_email p, cur_role = tok_role p,
                 cur_name = dict_get (name u) (tok_email p)\<rparr>"
    using get_current_user_parts [of h "Some users"] by simp
next
  show "get_current_user (Some (map (\<lambda>u. u\<lparr>role := f u\<rparr>) users)) a
       = get_current_user (Some users) a"
    by (auto simp: get_current_user_def Let_def find_one_map_role
             split: option.splits sum.splits)
qed

theorem role_from_token_witness:
  "str_split (str_of ''Bearer 61646d696e3a61646d696e'') \<noteq> []
   \<and> parse_token (last (str_split (str_of ''Bearer 61646d696e3a61646d696e'')))
       = Inr \<lparr>tok_role = str_of ''admin'', tok_email = str_of ''admin''\<rparr>
   \<and> find_one [\<lparr>email = str_of ''admin'', password = Some (str_of ''admin''),
                 name = Some (str_of ''Administrator''), role = Some (str_of ''employee''),
                 is_active = Some True\<rparr>] (str_of ''admin'')
       = Some \<lparr>email = str_of ''admin'', password = Some (str_of ''admin''),
                 name = Some (str_of ''Administrator''), role = Some (str_of ''employee''),
                 is_active = Some True\<rparr>
   \<and> get_current_user
        (Some [\<lparr>email = str_of ''admin'', password = Some (str_of ''admin''),
                name = Some (str_of ''Administrator''), role = Some (str_of ''employee''),
                is_active = Some True\<rparr>])
        (Some (str_of ''Bearer 61646d696e3a61646d696e''))
       = Inr \<lparr>cur_email = str_of ''admin'', cur_role = str_of ''admin'',
              cur_name = str_of ''Administrator''\<rparr>
   \<and> get_current_user
        (Some (map (\<lambda>u. u\<lparr>role := Some (str_of ''employee'')\<rparr>)
           [\<lparr>email = str_of ''admin'', password = Some (str_of ''admin''),
             name = Some (str_of ''Administrator''), role = Some (str_of ''admin''),
             is_active = Some True\<rparr>]))
        (Some (str_of ''Bearer 61646d696e3a61646d696e''))
       = get_current_user
        (Some [\<lparr>email = str_of ''admin'', password = Some (str_of ''admin''),
             name = Some (str_of ''Administrator''), role = Some (str_of ''admin''),
             is_active = Some True\<rparr>])
        (Some (str_of ''Bearer 61646d696e3a61646d696e''))"
proof -
  let ?h = "str_of ''Bearer 61646d696e3a61646d696e''"
  let ?t = "str_of ''61646d696e3a61646d696e''"
  let ?p = "\<lparr>tok_role = str_of ''admin'', tok_email = str_of ''admin''\<rparr>"
  let ?u = "\<lparr>email = str_of ''admin'', password = Some (str_of ''admin''),
                 name = Some (str_of ''Administrator''), role = Some (str_of ''employee''),
                 is_active = Some True\<rparr>"
  let ?v = "\<lparr>email = str_of ''admin'', password = Some (str_of ''admin''),
                 name = Some (str_of ''Administrator''), role = Some (str_of ''admin''),
                 is_active = Some True\<rparr>"
  have h: "?h = str_of ''Bearer '' @ ?t" by (simp add: str_of_def)
  have 1: "str_split ?h \<noteq> []" and l: "last (str_split ?h) = ?t"
    unfolding h using bearer_header [OF admin_token] by blast+
  have 2: "parse_token (last (str_split ?h)) = Inr ?p" using l admin_token_parses by simp
  have 3: "find_one [?u] (str_of ''admin'') = Some ?u" by (simp add: find_one_def)
  have f3: "find_one [?u] (tok_email ?p) = Some ?u \<and> is_active ?u = Some True"
    using 3 by simp
  have "get_current_user (Some [?u]) (Some ?h)
      = Inr \<lparr>cur_email = tok_email ?p, cur_role = tok_role ?p,
             cur_name = dict_get (name ?u) (tok_email ?p)\<rparr>"
    using role_from_token [of ?h "[?u]" "\<lambda>u. Some (str_of ''employee'')" "Some ?h"] 1 2 f3
    by blast
  then have 4: "get_current_user (Some [?u]) (Some ?h)
      = Inr \<lparr>cur_email = str_of ''admin'', cur_role = str_of ''admin'',
             cur_name = str_of ''Administrator''\<rparr>"
    by (simp add: dict_get_def)
  have 5: "get_current_user (Some (map (\<lambda>u. u\<lparr>role := Some (str_of ''employee'')\<rparr>) [?v])) (Some ?h)
       = get_current_user (Some [?v]) (Some ?h)"
    using role_from_token [of ?h "[?v]" "\<lambda>u. Some (str_of ''employee'')" "Some ?h"] by blast
  show ?thesis using 1 2 3 4 5 by blast
qed

text \<open>
  C5. \<open>get_current_user\<close> returns an identity only when the store holds, for that
  identity, a record whose \<open>is_active\<close> is true. A token that \<open>login\<close> issued for an
  active account (its role free of colons) is accepted while the account is active;
  in a store where the account's \<open>is_active\<close> is false the token still parses, to the
  same role and identity, and \<open>get_current_user\<close> fails with the 401 "User not active
  or not found".
\<close>

theorem inactive_account_rejected:
  "(get_current_user db a = Inr ctx \<longrightarrow>
      (\<exists>users u. db = Some users \<and> find_one users (cur_email ctx) = Some u
                 \<and> is_active u = Some True))
   \<and> (\<forall>resp u u'.
        login ev (Some users) p = Inr resp \<and> find_one users (req_email p) = Some u
        \<and> is_active u = Some True \<and> 58 \<notin> set (dict_get (role u) (str_of ''employee''))
        \<and> find_one users' (req_email p) = Some u' \<and> is_active u' = Some False \<longrightarrow>
          get_current_user (Some users) (Some (str_of ''Bearer '' @ resp_token resp))
            = Inr \<lparr>cur_email = req_email p,
                   cur_role = dict_get (role u) (str_of ''employee''),
                   cur_name = dict_get (name u) (req_email p)\<rparr>
          \<and> parse_token (resp_token resp)
              = Inr \<lparr>tok_role = dict_get (role u) (str_of ''employee''), tok_email = req_email p\<rparr>
          \<and> get_current_user (Some users') (Some (str_of ''Bearer '' @ resp_token resp))
              = Inl Unauthorized)"
proof (intro conjI allI impI)
  assume "get_current_user db a = Inr ctx"
  then show "\<exists>users u. db = Some users \<and> find_one users (cur_email ctx) = Some u
                 \<and> is_active u = Some True"
    by (rule get_current_user_success)
next
  fix resp :: LoginResponse and u u' :: user
  let ?r = "dict_get (role u) (str_of ''employee'')"
  let ?h = "str_of ''Bearer '' @ resp_token resp"
  assume a: "login ev (Some users) p = Inr resp \<and> find_one users (req_email p) = Some u
        \<and> is_active u = Some True \<and> 58 \<notin> set ?r
        \<and> find_one users' (req_email p) = Some u' \<and> is_active u' = Some False"
  then have tok: "issue_token (req_email p) ?r = Inr (resp_token resp)"
    using login_success by blast
  have parse: "parse_token (resp_token resp) = Inr \<lparr>tok_role = ?r, tok_email = req_email p\<rparr>"
    using issued_token_parses [OF tok] a by blast
  have hd: "str_split ?h \<noteq> []" and lst: "last (str_split ?h) = resp_token resp"
    using bearer_header [OF tok] by blast+
  have parse': "parse_token (last (str_split ?h)) = Inr \<lparr>tok_role = ?r, tok_email = req_email p\<rparr>"
    using parse lst by simp
  show "get_current_user (Some users) (Some ?h)
            = Inr \<lparr>cur_email = req_email p, cur_role = ?r,
                   cur_name = dict_get (name u) (req_email p)\<rparr>"
    using guard_after_split [OF hd parse', of users] a by simp
  show "parse_token (resp_token resp) = Inr \<lparr>tok_role = ?r, tok_email = req_email p\<rparr>"
    by (rule parse)
  show "get_current_user (Some users') (Some ?h) = Inl Unauthorized"
    using guard_after_split [OF hd parse', of users'] a by simp
qed

theorem inactive_account_rejected_witness:
  "login Some
     (Some [\<lparr>email = str_of ''a@b.co'', password = Some (str_of ''secret''), name = None,
             role = None, is_active = Some True\<rparr>])
     \<lparr>req_email = str_of ''a@b.co'', req_password = str_of ''secret''\<rparr>
     = Inr \<lparr>resp_email = str_of ''a@b.co'', resp_name = str_of ''a@b.co'',
            resp_role = str_of ''employee'',
            resp_token = str_of ''656d706c6f7965653a6140622e636f''\<rparr>
   \<and> get_current_user
       (Some [\<lparr>email = str_of ''a@b.co'', password = Some (str_of ''secret''), name = None,
               role = None, is_active = Some True\<rparr>])
       (Some (str_of ''Bearer '' @ str_of ''656d706c6f7965653a6140622e636f''))
     = Inr \<lparr>cur_email = str_of ''a@b.co'', cur_role = str_of ''employee'',
            cur_name = str_of ''a@b.co''\<rparr>
   \<and> (\<exists>users u.
         Some [\<lparr>email = str_of ''a@b.co'', password = Some (str_of ''secret''), name = None,
                 role = None, is_active = Some True\<rparr>] = Some users
         \<and> find_one users (str_of ''a@b.co'') = Some u \<and> is_active u = Some True)
   \<and> parse_token (str_of ''656d706c6f7965653a6140622e636f'')
     = Inr \<lparr>tok_role = str_of ''employee'', tok_email = str_of ''a@b.co''\<rparr>
   \<and> get_current_user
       (Some [\<lparr>email = str_of ''a@b.co'', password = Some (str_of ''secret''), name = None,
               role = None, is_active = Some False\<rparr>])
       (Some (str_of ''Bearer '' @ str_of ''656d706c6f7965653a6140622e636f''))
     = Inl Unauthorized"
proof -
  let ?u = "\<lparr>email = str_of ''a@b.co'', password = Some (str_of ''secret''), name = None,
             role = None, is_active = Some True\<rparr>"
  let ?u' = "\<lparr>email = str_of ''a@b.co'', password = Some (str_of ''secret''), name = None,
             role = None, is_active = Some False\<rparr>"
  let ?p = "\<lparr>req_email = str_of ''a@b.co'', req_password = str_of ''secret''\<rparr>"
  let ?t = "str_of ''656d706c6f7965653a6140622e636f''"
  let ?resp = "\<lparr>resp_email = str_of ''a@b.co'', resp_name = str_of ''a@b.co'',
            resp_role = str_of ''employee'', resp_token = ?t\<rparr>"
  let ?h = "str_of ''Bearer '' @ ?t"
  let ?ctx = "\<lparr>cur_email = str_of ''a@b.co'', cur_role = str_of ''employee'',
            cur_name = str_of ''a@b.co''\<rparr>"
  have t: "issue_token (str_of ''a@b.co'') (str_of ''employee'') = Inr ?t"
    by (simp add: issue_token_def str_of_def hexdigit_def)
  have e: "EmailStr Some (str_of ''a@b.co'') = Some (str_of ''a@b.co'')"
    by (simp add: EmailStr_def str_of_def)
  have lg: "login Some (Some [?u]) ?p = Inr ?resp"
    using t e by (simp add: login_def find_one_def dict_get_def)
  have f: "find_one [?u] (req_email ?p) = Some ?u" by (simp add: find_one_def)
  have f': "find_one [?u'] (req_email ?p) = Some ?u'" by (simp add: find_one_def)
  have a: "is_active ?u = Some True" by simp
  have a': "is_active ?u' = Some False" by simp
  have c: "58 \<notin> set (dict_get (role ?u) (str_of ''employee''))"
    by (simp add: dict_get_def str_of_def)
  have d: "dict_get (role ?u) (str_of ''employee'') = str_of ''employee''"
    "dict_get (name ?u) (req_email ?p) = str_of ''a@b.co''"
    by (simp_all add: dict_get_def)
  have "get_current_user (Some [?u]) (Some (str_of ''Bearer '' @ resp_token ?resp))
            = Inr \<lparr>cur_email = req_email ?p,
                   cur_role = dict_get (role ?u) (str_of ''employee''),
                   cur_name = dict_get (name ?u) (req_email ?p)\<rparr>
          \<and> parse_token (resp_token ?resp)
              = Inr \<lparr>tok_role = dict_get (role ?u) (str_of ''employee''), tok_email = req_email ?p\<rparr>
          \<and> get_current_user (Some [?u']) (Some (str_of ''Bearer '' @ resp_token ?resp))
              = Inl Unauthorized"
    using inactive_account_rejected [of "Some [?u]" "Some ?h" ?ctx Some "[?u]" ?p "[?u']"]
      lg f f' a a' c by blast
  then have r: "get_current_user (Some [?u]) (Some ?h)
            = Inr \<lparr>cur_email = str_of ''a@b.co'', cur_role = str_of ''employee'',
                   cur_name = str_of ''a@b.co''\<rparr>
          \<and> parse_token ?t = Inr \<lparr>tok_role = str_of ''employee'', tok_email = str_of ''a@b.co''\<rparr>
          \<and> get_current_user (Some [?u']) (Some ?h) = Inl Unauthorized"
    by (simp add: dict_get_def)
  then have g: "get_current_user (Some [?u]) (Some ?h) = Inr ?ctx" by blast
  have x: "\<exists>users u. Some [?u] = Some users \<and> find_one users (cur_email ?ctx) = Some u
                 \<and> is_active u = Some True"
    using inactive_account_rejected [of "Some [?u]" "Some ?h" ?ctx Some "[?u]" ?p "[?u']"] g
    by blast
  show ?thesis using lg a r x by simp
qed

text \<open>
  C10. For a record without a \<open>role\<close> field: a login with the matching password, not
  deactivated, for an address that is Unicode text and passes the validation of the
  response, succeeds with the role \<open>employee\<close> in the response and a token that parses
  to the role \<open>employee\<close> and the identity; and whenever a login for such a record
  succeeds, its response carries \<open>employee\<close> and that token.
\<close>

theorem absent_role_is_employee:
  "(\<forall>u e'. find_one users (req_email p) = Some u \<and> password u = Some (req_password p)
            \<and> is_active u \<noteq> Some False \<and> role u = None \<and> unicode_text (req_email p)
            \<and> EmailStr ev (req_email p) = Some e' \<longrightarrow>
        (\<exists>t. issue_token (req_email p) (str_of ''employee'') = Inr t
            \<and> parse_token t = Inr \<lparr>tok_role = str_of ''employee'', tok_email = req_email p\<rparr>
            \<and> login ev (Some users) p
                = Inr \<lparr>resp_email = e', resp_name = dict_get (name u) (req_email p),
                       resp_role = str_of ''employee'', resp_token = t\<rparr>))
   \<and> (\<forall>u resp. find_one users (req_email p) = Some u \<and> role u = None
            \<and> login ev (Some users) p = Inr resp \<longrightarrow>
          resp_role resp = str_of ''employee''
          \<and> issue_token (req_email p) (str_of ''employee'') = Inr (resp_token resp)
          \<and> parse_token (resp_token resp)
              = Inr \<lparr>tok_role = str_of ''employee'', tok_email = req_email p\<rparr>)"
proof (intro conjI allI impI)
  fix u :: user and e' :: str
  assume a: "find_one users (req_email p) = Some u \<and> password u = Some (req_password p)
            \<and> is_active u \<noteq> Some False \<and> role u = None \<and> unicode_text (req_email p)
            \<and> EmailStr ev (req_email p) = Some e'"
  have emp: "unicode_text (str_of ''employee'')" "58 \<notin> set (str_of ''employee'')"
    by (simp_all add: unicode_text_def scalar_value_def str_of_def)
  obtain t where t: "issue_token (req_email p) (str_of ''employee'') = Inr t"
    using issue_token_text [OF emp(1), of "req_email p"] a by blast
  have parse: "parse_token t = Inr \<lparr>tok_role = str_of ''employee'', tok_email = req_email p\<rparr>"
    using issued_token_parses [OF t emp(2)] .
  have act: "dict_get (is_active u) True"
    using a by (cases "is_active u") (auto simp: dict_get_def)
  have "login ev (Some users) p
                = Inr \<lparr>resp_email = e', resp_name = dict_get (name u) (req_email p),
                       resp_role = str_of ''employee'', resp_token = t\<rparr>"
    using a t act by (simp add: login_def dict_get_def)
  then show "\<exists>t. issue_token (req_email p) (str_of ''employee'') = Inr t
            \<and> parse_token t = Inr \<lparr>tok_role = str_of ''employee'', tok_email = req_email p\<rparr>
            \<and> login ev (Some users) p
                = Inr \<lparr>resp_email = e', resp_name = dict_get (name u) (req_email p),
                       resp_role = str_of ''employee'', resp_token = t\<rparr>"
    using t parse by blast
next
  fix u :: user and resp :: LoginResponse
  assume a: "find_one users (req_email p) = Some u \<and> role u = None
            \<and> login ev (Some users) p = Inr resp"
  then have s: "issue_token (req_email p) (dict_get (role u) (str_of ''employee'')) = Inr (resp_token resp)"
    "resp_role resp = dict_get (role u) (str_of ''employee'')"
    using login_success by blast+
  have d: "dict_get (role u) (str_of ''employee'') = str_of ''employee''"
    using a by (simp add: dict_get_def)
  have emp: "58 \<notin> set (str_of ''employee'')" by (simp add: str_of_def)
  have parse: "parse_token (resp_token resp)
              = Inr \<lparr>tok_role = str_of ''employee'', tok_email = req_email p\<rparr>"
    using s d issued_token_parses [OF _ emp, of "req_email p" "resp_token resp"] by simp
  show "resp_role resp = str_of ''employee''" using s d by simp
  show "issue_token (req_email p) (str_of ''employee'') = Inr (resp_token resp)"
    using s d by simp
  show "parse_token (resp_token resp)
              = Inr \<lparr>tok_role = str_of ''employee'', tok_email = req_email p\<rparr>"
    by (rule parse)
qed

theorem absent_role_is_employee_witness:
  "unicode_text (str_of ''a@b.co'')
   \<and> EmailStr Some (str_of ''a@b.co'') = Some (str_of ''a@b.co'')
   \<and> issue_token (str_of ''a@b.co'') (str_of ''employee'')
       = Inr (str_of ''656d706c6f7965653a6140622e636f'')
   \<and> parse_token (str_of ''656d706c6f7965653a6140622e636f'')
       = Inr \<lparr>tok_role = str_of ''employee'', tok_email = str_of ''a@b.co''\<rparr>
   \<and> login Some
        (Some [\<lparr>email = str_of ''a@b.co'', password = Some (str_of ''secret''),
                name = Some (str_of ''Ann''), role = None, is_active = None\<rparr>])
        \<lparr>req_email = str_of ''a@b.co'', req_password = str_of ''secret''\<rparr>
       = Inr \<lparr>resp_email = str_of ''a@b.co'', resp_name = str_of ''Ann'',
              resp_role = str_of ''employee'',
              resp_token = str_of ''656d706c6f7965653a6140622e636f''\<rparr>"
proof -
  let ?u = "\<lparr>email = str_of ''a@b.co'', password = Some (str_of ''secret''),
                name = Some (str_of ''Ann''), role = None, is_active = None\<rparr>"
  let ?p = "\<lparr>req_email = str_of ''a@b.co'', req_password = str_of ''secret''\<rparr>"
  let ?t = "str_of ''656d706c6f7965653a6140622e636f''"
  let ?resp = "\<lparr>resp_email = str_of ''a@b.co'', resp_name = str_of ''Ann'',
              resp_role = str_of ''employee'', resp_token = ?t\<rparr>"
  have ut: "unicode_text (str_of ''a@b.co'')"
    by (simp add: unicode_text_def scalar_value_def str_of_def)
  have e: "EmailStr Some (str_of ''a@b.co'') = Some (str_of ''a@b.co'')"
    by (simp add: EmailStr_def str_of_def)
  have t: "issue_token (str_of ''a@b.co'') (str_of ''employee'') = Inr ?t"
    by (simp add: issue_token_def str_of_def hexdigit_def)
  have hyp: "find_one [?u] (req_email ?p) = Some ?u \<and> password ?u = Some (req_password ?p)
            \<and> is_active ?u \<noteq> Some False \<and> role ?u = None \<and> unicode_text (req_email ?p)
            \<and> EmailStr Some (req_email ?p) = Some (str_of ''a@b.co'')"
    using ut e by (simp add: find_one_def)
  have "\<exists>t. issue_token (req_email ?p) (str_of ''employee'') = Inr t
            \<and> parse_token t = Inr \<lparr>tok_role = str_of ''employee'', tok_email = req_email ?p\<rparr>
            \<and> login Some (Some [?u]) ?p
                = Inr \<lparr>resp_email = str_of ''a@b.co'', resp_name = dict_get (name ?u) (req_email ?p),
                       resp_role = str_of ''employee'', resp_token = t\<rparr>"
    using absent_role_is_employee [of "[?u]" ?p Some] hyp by blast
  then have "parse_token ?t = Inr \<lparr>tok_role = str_of ''employee'', tok_email = str_of ''a@b.co''\<rparr>
            \<and> login Some (Some [?u]) ?p
                = Inr \<lparr>resp_email = str_of ''a@b.co'', resp_name = str_of ''Ann'',
                       resp_role = str_of ''employee'', resp_token = ?t\<rparr>"
    using t by (auto simp: dict_get_def)
  then have lg: "login Some (Some [?u]) ?p = Inr ?resp" by blast
  have "find_one [?u] (req_email ?p) = Some ?u \<and> role ?u = None" by (simp add: find_one_def)
  then have "resp_role ?resp = str_of ''employee''
          \<and> issue_token (req_email ?p) (str_of ''employee'') = Inr (resp_token ?resp)
          \<and> parse_token (resp_token ?resp)
              = Inr \<lparr>tok_role = str_of ''employee'', tok_email = req_email ?p\<rparr>"
    using absent_role_is_employee [of "[?u]" ?p Some] lg by blast
  then have "parse_token ?t = Inr \<lparr>tok_role = str_of ''employee'', tok_email = str_of ''a@b.co''\<rparr>"
    by simp
  then show ?thesis using ut e t lg by blast
qed

text \<open>
  C1. The scenario of the seeded administrator stops at its first step. The identity
  \<open>admin\<close> has no \<open>@\<close>, so the validation of the request body rejects it before
  \<open>login\<close> runs; and \<open>login\<close>, handed that identity and password all the same, finds
  the record, accepts the password, issues the token and then fails to build its
  \<open>LoginResponse\<close>, whose \<open>email\<close> field is validated in the same way. The later
  steps hold as far as the source has them: the token of the pair is accepted
  (\<open>seeded_admin_authenticates\<close>) and the one role check of the source, for the
  role \<open>admin\<close>, lets that identity pass and stops an employee
  (\<open>seeded_admin_passes_guard\<close>).
\<close>

theorem seeded_admin_cannot_login:
  "post_auth_login ev (seed_users (Some [])) (str_of ''admin'') (str_of ''admin'')
     = Inl RequestValidationError
   \<and> login ev (seed_users (Some [])) \<lparr>req_email = str_of ''admin'', req_password = str_of ''admin''\<rparr>
     = Inl ValidationError"
proof
  have "EmailStr ev (str_of ''admin'') = None" by (simp add: EmailStr_def str_of_def)
  then show "post_auth_login ev (seed_users (Some [])) (str_of ''admin'') (str_of ''admin'')
     = Inl RequestValidationError"
    by (simp add: post_auth_login_def)
next
  have e: "EmailStr ev (str_of ''admin'') = None" by (simp add: EmailStr_def str_of_def)
  show "login ev (seed_users (Some [])) \<lparr>req_email = str_of ''admin'', req_password = str_of ''admin''\<rparr>
     = Inl ValidationError"
    unfolding seeded_store using e admin_token
    by (simp add: login_def find_one_def dict_get_def)
qed

text \<open>
  C6. A header value that is not empty and holds whitespace only (a no-break space, or
  a space when the function is called directly) splits into no segment, and
  \<open>parts[-1]\<close> raises \<open>IndexError\<close>, which no handler catches: the response has status
  500. By \<open>index_error_iff\<close> these are the only header values with that outcome.
\<close>

theorem whitespace_header_crashes:
  "get_current_user db (Some [0xA0]) = Inl IndexError
   \<and> get_current_user db (Some (str_of '' '')) = Inl IndexError
   \<and> status_code IndexError = 500"
  by (simp add: get_current_user_def str_split_def isspace_def str_of_def)

text \<open>
  C7. For a record without an \<open>is_active\<close> field the two paths disagree: \<open>login\<close>
  takes the account for active and issues a token, and \<open>get_current_user\<close> rejects
  that very token with the 401 "User not active or not found"
  (\<open>absent_flag_rejected\<close> for any header and store).
\<close>

theorem absent_flag_login_and_guard_disagree:
  "login Some
     (Some [\<lparr>email = str_of ''a@b.co'', password = Some (str_of ''secret''), name = None,
             role = None, is_active = None\<rparr>])
     \<lparr>req_email = str_of ''a@b.co'', req_password = str_of ''secret''\<rparr>
     = Inr \<lparr>resp_email = str_of ''a@b.co'', resp_name = str_of ''a@b.co'',
            resp_role = str_of ''employee'',
            resp_token = str_of ''656d706c6f7965653a6140622e636f''\<rparr>
   \<and> get_current_user
       (Some [\<lparr>email = str_of ''a@b.co'', password = Some (str_of ''secret''), name = None,
               role = None, is_active = None\<rparr>])
       (Some (str_of ''Bearer '' @ str_of ''656d706c6f7965653a6140622e636f''))
     = Inl Unauthorized"
proof
  let ?u = "\<lparr>email = str_of ''a@b.co'', password = Some (str_of ''secret''), name = None,
             role = None, is_active = None\<rparr>"
  let ?t = "str_of ''656d706c6f7965653a6140622e636f''"
  let ?h = "str_of ''Bearer '' @ ?t"
  have t: "issue_token (str_of ''a@b.co'') (str_of ''employee'') = Inr ?t"
    by (simp add: issue_token_def str_of_def hexdigit_def)
  have e: "EmailStr Some (str_of ''a@b.co'') = Some (str_of ''a@b.co'')"
    by (simp add: EmailStr_def str_of_def)
  show "login Some (Some [?u]) \<lparr>req_email = str_of ''a@b.co'', req_password = str_of ''secret''\<rparr>
     = Inr \<lparr>resp_email = str_of ''a@b.co'', resp_name = str_of ''a@b.co'',
            resp_role = str_of ''employee'', resp_token = ?t\<rparr>"
    using t e by (simp add: login_def find_one_def dict_get_def)
  have 1: "str_split ?h \<noteq> []" and 2: "last (str_split ?h) = ?t"
    using bearer_header [OF t] by blast+
  have "58 \<notin> set (str_of ''employee'')" by (simp add: str_of_def)
  then have 3: "parse_token (last (str_split ?h))
      = Inr \<lparr>tok_role = str_of ''employee'', tok_email = str_of ''a@b.co''\<rparr>"
    using issued_token_parses [OF t] 2 by simp
  show "get_current_user (Some [?u]) (Some ?h) = Inl Unauthorized"
    using guard_after_split [OF 1 3, of "[?u]"] by (simp add: find_one_def)
qed

end
